theory Spec2Isabelle
  imports Complex_Main "HOL-Library.Sublist"
begin

section \<open>Conventions of the embedding\<close>

text \<open>
  The candidate evaluation system is Python. Its dictionaries become records (a key that
  may be absent becomes an \<open>option\<close> field), its category results stay strings, as the
  code returns and compares them, and its numbers are embedded as follows: an \<open>int\<close>
  is an \<open>int\<close>; a value that the code obtains by true division or by multiplying with
  a decimal constant is a \<open>rat\<close>, that is, the arithmetic of the model is exact.
  \<open>round(x, 2)\<close> is rounding of the exact value to two decimals, ties to even.
  Strings are lists of characters; \<open>len\<close> is \<open>length\<close> and \<open>w in s\<close> is
  \<open>sublist w s\<close>.
\<close>

subsection \<open>Strings\<close>

definition ascii_uppercase :: string where
  "ascii_uppercase = ''ABCDEFGHIJKLMNOPQRSTUVWXYZ''"

definition ascii_lowercase :: string where
  "ascii_lowercase = ''abcdefghijklmnopqrstuvwxyz''"

definition lower_char :: "char \<Rightarrow> char" where
  "lower_char c =
     (case map_of (zip ascii_uppercase ascii_lowercase) c of Some d \<Rightarrow> d | None \<Rightarrow> c)"

definition upper_char :: "char \<Rightarrow> char" where
  "upper_char c =
     (case map_of (zip ascii_lowercase ascii_uppercase) c of Some d \<Rightarrow> d | None \<Rightarrow> c)"

definition is_cased :: "char \<Rightarrow> bool" where
  "is_cased c = (c \<in> set ascii_uppercase \<or> c \<in> set ascii_lowercase)"

text \<open>\<open>str.lower()\<close>, on the ASCII letters.\<close>

definition lower :: "string \<Rightarrow> string" where
  "lower s = map lower_char s"

text \<open>
  \<open>str.title()\<close>: a letter that follows a letter is lower-cased, any other letter is
  upper-cased. The flag says whether the previous character was a letter.
\<close>

fun title_from :: "bool \<Rightarrow> string \<Rightarrow> string" where
  "title_from prev [] = []"
| "title_from prev (c # cs) =
     (if is_cased c
      then (if prev then lower_char c else upper_char c) # title_from True cs
      else c # title_from False cs)"

definition title :: "string \<Rightarrow> string" where
  "title s = title_from False s"

text \<open>\<open>any(word in text for word in words)\<close>.\<close>

definition any_in :: "string list \<Rightarrow> string \<Rightarrow> bool" where
  "any_in ws text = list_ex (\<lambda>w. sublist w text) ws"

subsection \<open>Numbers\<close>

text \<open>\<open>round(x, 2)\<close> on the exact value: the nearest multiple of 1/100, a tie to the even one.\<close>

definition round2 :: "rat \<Rightarrow> rat" where
  "round2 x =
     (let y = x * 100; f = \<lfloor>y\<rfloor>; d = y - of_int f
      in if d < 1 / 2 then of_int f / 100
         else if 1 / 2 < d then of_int (f + 1) / 100
         else of_int (if even f then f else f + 1) / 100)"

section \<open>Interview response scorer (interview\_scorer.py)\<close>

record score_result =
  overall_score :: int
  technical_knowledge :: int
  communication :: int
  problem_solving :: int
  cultural_fit :: int
  strengths :: "string list"
  weaknesses :: "string list"
  feedback :: string
  recommendation :: string
  confidence :: int
  response_length :: nat

definition technical_keywords :: "string list" where
  "technical_keywords = [''python'', ''java'', ''database'', ''api'', ''algorithm'']"

text \<open>The length bands of \<open>_fallback_scoring\<close>.\<close>

definition length_band :: "nat \<Rightarrow> int" where
  "length_band n = (if n < 50 then 3 else if n < 150 then 5 else if n < 300 then 7 else 8)"

text \<open>\<open>sum(1 for keyword in technical_keywords if keyword in response_lower)\<close>.\<close>

definition keyword_matches :: "string \<Rightarrow> int" where
  "keyword_matches response_lower =
     int (length (filter (\<lambda>keyword. sublist keyword response_lower) technical_keywords))"

text \<open>
  \<open>_fallback_scoring(question, response, criteria)\<close>. The four criteria scores of the
  result dictionary are the fields \<open>technical_knowledge\<close> to \<open>cultural_fit\<close>; of the
  metadata the response length is kept. The \<open>criteria\<close> argument is not read by the code.
\<close>

definition fallback_scoring :: "string \<Rightarrow> string \<Rightarrow> string list \<Rightarrow> score_result" where
  "fallback_scoring question response criteria =
     (let response_len = length response;
          question_lower = lower question;
          response_lower = lower response;
          base = length_band response_len;
          score = (if sublist ''technical'' question_lower \<or> sublist ''programming'' question_lower
                   then min 10 (base + keyword_matches response_lower)
                   else base)
      in \<lparr> overall_score = score,
           technical_knowledge = score,
           communication = min 10 (score + 1),
           problem_solving = score,
           cultural_fit = 6,
           strengths = [''Fallback scoring used''],
           weaknesses = [''Detailed analysis unavailable''],
           feedback = ''Fallback scoring method used due to processing error'',
           recommendation = (if 6 \<le> score then ''consider'' else ''reject''),
           confidence = 50,
           response_length = response_len \<rparr>)"

definition default_criteria :: "string list" where
  "default_criteria = [''technical_knowledge'', ''communication'', ''problem_solving'', ''cultural_fit'']"

text \<open>
  \<open>score_interview_response(question, response, criteria=None)\<close>: the fallback scoring,
  with the metadata replaced (the response length stays, the timestamp is not modelled).
\<close>

definition score_interview_response :: "string \<Rightarrow> string \<Rightarrow> string list option \<Rightarrow> score_result" where
  "score_interview_response question response criteria =
     (let crit = (case criteria of None \<Rightarrow> default_criteria | Some c \<Rightarrow> c);
          scoring_result = fallback_scoring question response crit
      in scoring_result \<lparr> response_length := length response \<rparr>)"

subsection \<open>Aggregation over several responses\<close>

text \<open>
  One entry of the input list: \<open>qr.get("question", "")\<close> and \<open>qr.get("response", "")\<close>,
  so that an absent key reads as the empty string.
\<close>

record question_response =
  qr_question :: string
  qr_response :: string

text \<open>
  \<open>statistics.variance\<close>, the sample variance, which Python computes exactly on integers.
  It is called on at least two scores only.
\<close>

definition variance :: "int list \<Rightarrow> rat" where
  "variance xs =
     (let n = length xs;
          mean = of_int (sum_list xs) / of_nat n
      in sum_list (map (\<lambda>x. (of_int x - mean)\<^sup>2) xs) / of_nat (n - 1))"

text \<open>\<open>_calculate_consistency_score(individual_scores)\<close>.\<close>

definition calculate_consistency_score :: "score_result list \<Rightarrow> rat" where
  "calculate_consistency_score individual =
     (let scores = map overall_score individual
      in if length scores < 2 then 100
         else round2 (max 0 (100 - variance scores * 10)))"

text \<open>\<open>_determine_interview_recommendation(average_score)\<close>.\<close>

definition determine_interview_recommendation :: "rat \<Rightarrow> string" where
  "determine_interview_recommendation average_score =
     (if 17 / 2 \<le> average_score then ''strong_hire''
      else if 7 \<le> average_score then ''hire''
      else if 11 / 2 \<le> average_score then ''consider''
      else ''reject'')"

text \<open>
  The overall assessment of an interview. The early return for no questions gives the
  two keys \<open>overall_score\<close> and \<open>performance_level\<close> only, so the other keys are optional.
  The most common strengths and weaknesses are not modelled.
\<close>

record interview_assessment =
  ia_overall_score :: rat
  performance_level :: string
  total_questions :: "nat option"
  consistency_score :: "rat option"
  ia_recommendation :: "string option"

text \<open>\<open>_calculate_overall_assessment(individual_scores, total_score, num_questions)\<close>.\<close>

definition calculate_overall_assessment ::
  "score_result list \<Rightarrow> int \<Rightarrow> nat \<Rightarrow> interview_assessment" where
  "calculate_overall_assessment individual total_score num_questions =
     (if num_questions = 0
      then \<lparr> ia_overall_score = 0, performance_level = ''poor'', total_questions = None,
             consistency_score = None, ia_recommendation = None \<rparr>
      else
        let average_score = of_int total_score / of_nat num_questions;
            level = (if 17 / 2 \<le> average_score then ''excellent''
                     else if 7 \<le> average_score then ''good''
                     else if 11 / 2 \<le> average_score then ''fair''
                     else ''poor'')
        in \<lparr> ia_overall_score = round2 average_score,
             performance_level = level,
             total_questions = Some num_questions,
             consistency_score = Some (calculate_consistency_score individual),
             ia_recommendation = Some (determine_interview_recommendation average_score) \<rparr>)"

text \<open>
  The loop of \<open>score_multiple_responses\<close>: the state is the list of individual results
  (each with its \<open>question_index\<close>) and the running \<open>total_score\<close>; \<open>i\<close> is the index
  that \<open>enumerate\<close> gives. A pair with an empty question or an empty response is skipped.
\<close>

fun score_loop ::
  "nat \<Rightarrow> question_response list \<Rightarrow> (nat \<times> score_result) list \<times> int \<Rightarrow>
   (nat \<times> score_result) list \<times> int" where
  "score_loop i [] acc = acc"
| "score_loop i (qr # rest) (individual, total_score) =
     (if qr_question qr = [] \<or> qr_response qr = []
      then score_loop (Suc i) rest (individual, total_score)
      else
        let score_result = score_interview_response (qr_question qr) (qr_response qr) None
        in score_loop (Suc i) rest
             (individual @ [(i, score_result)], total_score + overall_score score_result))"

record interview_results =
  individual_scores :: "(nat \<times> score_result) list"
  overall_assessment :: interview_assessment

text \<open>
  \<open>score_multiple_responses(questions_responses)\<close>. The summary statistics and the
  recommendation texts of the result are not modelled. Note the third argument of
  \<open>_calculate_overall_assessment\<close>: the length of the whole input list.
\<close>

definition score_multiple_responses :: "question_response list \<Rightarrow> interview_results" where
  "score_multiple_responses questions_responses =
     (case score_loop 0 questions_responses ([], 0) of
        (individual, total_score) \<Rightarrow>
          \<lparr> individual_scores = individual,
            overall_assessment =
              calculate_overall_assessment (map snd individual) total_score
                (length questions_responses) \<rparr>)"

section \<open>CV analyzer (cv\_analyzer.py)\<close>

subsection \<open>Profiles\<close>

text \<open>
  The value under a skill category is a list of skill names, or something that is not a
  list (which the code passes over); the value under \<open>technical_skills\<close> is a dictionary
  from categories to such values, or something that has no \<open>items()\<close> (the call raises).
\<close>

datatype skills_entry = SkillList "string list" | NotAList

datatype skills_table = SkillDict "(string \<times> skills_entry) list" | NotADict

record cv_skills =
  technical_skills :: "skills_table option"
  soft_skills :: "string list"
  experience_level :: "string option"
  years_experience :: "string option"

text \<open>
  The job requirements. \<open>required_technical_skills\<close> is
  \<open>job_requirements["required_skills"]["technical_skills"]\<close>, absent when either key is;
  the two experience fields are the keys of \<open>job_requirements["experience_requirements"]\<close>
  and \<open>degree_level\<close> the key of \<open>job_requirements["education_requirements"]\<close>.
\<close>

record job_requirements =
  required_technical_skills :: "skills_table option"
  required_experience_level :: "string option"
  required_years_experience :: "string option"
  degree_level :: "string option"

subsection \<open>Skill and requirement extraction\<close>

definition common_skills :: "(string \<times> string list) list" where
  "common_skills =
     [(''programming_languages'',
        [''python'', ''java'', ''javascript'', ''c++'', ''c#'', ''php'', ''ruby'', ''go'', ''rust'']),
      (''frameworks'',
        [''django'', ''flask'', ''react'', ''angular'', ''vue'', ''spring'', ''node.js'', ''express'']),
      (''databases'',
        [''mysql'', ''postgresql'', ''mongodb'', ''redis'', ''sqlite'', ''oracle'']),
      (''tools'',
        [''git'', ''docker'', ''kubernetes'', ''jenkins'', ''jira'', ''confluence'', ''aws'', ''azure'', ''gcp''])]"

definition cv_junior_words :: "string list" where
  "cv_junior_words = [''junior'', ''entry'', ''graduate'', ''intern'']"

definition cv_senior_words :: "string list" where
  "cv_senior_words = [''senior'', ''lead'', ''architect'', ''principal'']"

definition cv_mid_words :: "string list" where
  "cv_mid_words = [''mid'', ''intermediate'', ''3'', ''4'', ''5'']"

text \<open>The experience level and the years label that \<open>_fallback_skill_extraction\<close> assigns.\<close>

definition cv_experience :: "string \<Rightarrow> string \<times> string" where
  "cv_experience cv_lower =
     (if any_in cv_junior_words cv_lower then (''junior'', ''1-2'')
      else if any_in cv_senior_words cv_lower then (''senior'', ''5+'')
      else if any_in cv_mid_words cv_lower then (''mid-level'', ''3-5'')
      else (''unknown'', ''unknown''))"

text \<open>\<open>_fallback_skill_extraction(cv_text)\<close>.\<close>

definition fallback_skill_extraction :: "string \<Rightarrow> cv_skills" where
  "fallback_skill_extraction cv_text =
     (let cv_lower = lower cv_text
      in \<lparr> technical_skills =
             Some (SkillDict
               (map (\<lambda>(category, skills).
                       (category, SkillList (map title (filter (\<lambda>skill. sublist skill cv_lower) skills))))
                    common_skills)),
           soft_skills = [],
           experience_level = Some (fst (cv_experience cv_lower)),
           years_experience = Some (snd (cv_experience cv_lower)) \<rparr>)"

definition job_senior_words :: "string list" where
  "job_senior_words =
     [''senior'', ''lead'', ''architect'', ''principal'', ''5+'', ''6+'', ''7+'', ''8+'', ''9+'', ''10+'']"

definition job_junior_words :: "string list" where
  "job_junior_words = [''junior'', ''entry'', ''graduate'', ''intern'', ''1-3'', ''0-2'']"

definition job_mid_words :: "string list" where
  "job_mid_words = [''mid'', ''intermediate'', ''3-5'', ''4-6'']"

text \<open>The experience level and the years label that \<open>_fallback_requirement_extraction\<close> assigns.\<close>

definition job_experience :: "string \<Rightarrow> string \<times> string" where
  "job_experience job_lower =
     (if any_in job_senior_words job_lower then (''senior'', ''5+'')
      else if any_in job_junior_words job_lower then (''junior'', ''1-3'')
      else if any_in job_mid_words job_lower then (''mid-level'', ''3-5'')
      else (''unknown'', ''unknown''))"

text \<open>\<open>if test: xs.append(name)\<close>.\<close>

definition when_in :: "bool \<Rightarrow> string \<Rightarrow> string list" where
  "when_in test name = (if test then [name] else [])"

text \<open>\<open>_fallback_requirement_extraction(job_description)\<close>.\<close>

definition fallback_requirement_extraction :: "string \<Rightarrow> job_requirements" where
  "fallback_requirement_extraction job_description =
     (let job_lower = lower job_description;
          has = (\<lambda>w. sublist w job_lower)
      in \<lparr> required_technical_skills =
             Some (SkillDict
               [(''programming_languages'',
                   SkillList (when_in (has ''python'') ''python'' @ when_in (has ''java'') ''java''
                              @ when_in (has ''javascript'') ''javascript'')),
                (''frameworks'',
                   SkillList (when_in (has ''django'' \<or> has ''flask'') ''django/flask''
                              @ when_in (has ''spring'') ''spring'')),
                (''databases'', SkillList []),
                (''tools'',
                   SkillList (when_in (has ''docker'') ''docker'' @ when_in (has ''kubernetes'') ''kubernetes''
                              @ when_in (has ''ci/cd'' \<or> has ''jenkins'') ''ci/cd'')),
                (''cloud_platforms'',
                   SkillList (when_in (has ''aws'' \<or> has ''azure'' \<or> has ''gcp'') ''cloud platforms'')),
                (''architecture'',
                   SkillList (when_in (has ''microservices'') ''microservices''
                              @ when_in (has ''system design'') ''system design''))]),
           required_experience_level = Some (fst (job_experience job_lower)),
           required_years_experience = Some (snd (job_experience job_lower)),
           degree_level =
             Some (if has ''bachelor'' then ''bachelor's degree or higher'' else ''unknown'') \<rparr>)"



subsection \<open>Gap calculator\<close>

text \<open>
  The result of \<open>_calculate_skill_gaps\<close>. The three risk keys are set at the end of the
  \<open>try\<close> block only, so they are optional; \<open>experience_gap\<close> is Python's \<open>None\<close> or a
  string. The set difference is turned into a list whose order Python does not fix; the
  model keeps the set. The constant keys \<open>missing_soft_skills\<close>, \<open>missing_tools\<close> and
  \<open>education_gap\<close> are left out.
\<close>

record skill_gaps =
  missing_technical_skills :: "string set"
  experience_gap :: "string option"
  gap_score :: rat
  overqualification_risk :: "string option"
  retention_risk :: "string option"
  risk_factors :: "string list option"

text \<open>The dictionary as initialised, which is also what the \<open>except\<close> branch returns.\<close>

definition initial_gaps :: skill_gaps where
  "initial_gaps =
     \<lparr> missing_technical_skills = {}, experience_gap = None, gap_score = 0,
       overqualification_risk = None, retention_risk = None, risk_factors = None \<rparr>"

fun entry_skills :: "skills_entry \<Rightarrow> string list" where
  "entry_skills (SkillList skills) = map lower skills"
| "entry_skills NotAList = []"

text \<open>
  The two loops that collect the lower-cased skills of all categories into a set.
  \<open>None\<close>: \<open>.items()\<close> raised.
\<close>

fun all_skills :: "skills_table option \<Rightarrow> string set option" where
  "all_skills None = Some {}"
| "all_skills (Some NotADict) = None"
| "all_skills (Some (SkillDict items)) = Some (set (concat (map (\<lambda>(category, skills). entry_skills skills) items)))"

definition get_or :: "'a option \<Rightarrow> 'a \<Rightarrow> 'a" where
  "get_or v d = (case v of None \<Rightarrow> d | Some x \<Rightarrow> x)"

definition classify_experience_gap :: "string \<Rightarrow> string \<Rightarrow> string option" where
  "classify_experience_gap cv_exp job_exp =
     (if cv_exp \<noteq> ''unknown'' \<and> job_exp \<noteq> ''unknown''
      then (if cv_exp = ''junior'' \<and> job_exp = ''senior'' then Some ''junior_applying_for_senior''
            else if cv_exp = ''senior'' \<and> job_exp = ''junior'' then Some ''senior_applying_for_junior''
            else None)
      else None)"

text \<open>
  The block of \<open>_calculate_skill_gaps\<close> that computes the gap score from the number of
  required skills, the number of missing ones and the experience gap.
\<close>

definition experience_adjusted_score :: "nat \<Rightarrow> nat \<Rightarrow> string option \<Rightarrow> rat" where
  "experience_adjusted_score total_required missing_count gap =
     (if 0 < total_required
      then
        let base_gap_score = of_nat missing_count / of_nat total_required * 100;
            adjusted =
              (if gap = Some ''junior_applying_for_senior'' then base_gap_score + 30
               else if gap = Some ''senior_applying_for_junior'' then base_gap_score - 20
               else base_gap_score)
        in max 0 (min 100 adjusted)
      else 0)"

text \<open>
  The block that adds the risk analysis: the values of the keys
  \<open>overqualification_risk\<close>, \<open>retention_risk\<close> and \<open>risk_factors\<close>.
\<close>

definition risk_analysis :: "string option \<Rightarrow> string \<times> string \<times> string list" where
  "risk_analysis gap =
     (if gap = Some ''senior_applying_for_junior''
      then (''high'', ''high'',
            [''Candidate may feel underutilized'',
             ''Higher salary expectations'',
             ''May leave for better opportunities'',
             ''Could be bored with junior-level tasks''])
      else if gap = Some ''junior_applying_for_senior''
      then (''low'', ''low'',
            [''Candidate may struggle with senior responsibilities'',
             ''Learning curve could be steep'',
             ''May need additional training and support''])
      else (''medium'', ''medium'', [''Standard risk assessment'']))"

text \<open>
  \<open>_calculate_skill_gaps(cv_skills, job_requirements)\<close>. When one of the two loops raises,
  the \<open>except\<close> branch logs the error and the dictionary is returned as initialised.
\<close>

definition calculate_skill_gaps :: "cv_skills \<Rightarrow> job_requirements \<Rightarrow> skill_gaps" where
  "calculate_skill_gaps cv job =
     (case all_skills (technical_skills cv) of
        None \<Rightarrow> initial_gaps
      | Some cv_all_skills \<Rightarrow>
     (case all_skills (required_technical_skills job) of
        None \<Rightarrow> initial_gaps
      | Some job_all_skills \<Rightarrow>
          let missing = job_all_skills - cv_all_skills;
              cv_exp = get_or (experience_level cv) ''unknown'';
              job_exp = get_or (required_experience_level job) ''unknown'';
              gap = classify_experience_gap cv_exp job_exp;
              total_required = card job_all_skills;
              missing_count = card missing;
              risk = risk_analysis gap
          in \<lparr> missing_technical_skills = missing,
               experience_gap = gap,
               gap_score = experience_adjusted_score total_required missing_count gap,
               overqualification_risk = Some (fst risk),
               retention_risk = Some (fst (snd risk)),
               risk_factors = Some (snd (snd risk)) \<rparr>))"

subsection \<open>Overall assessment\<close>








subsection \<open>Analysis entry point\<close>



text \<open>
  What the file utilities see of the outside world (file\_utils.py): whether a path
  exists, its suffix as \<open>pathlib\<close> gives it, and what each reader library returns for it.
  \<open>None\<close> stands for a raised exception (the file cannot be opened or parsed).
  A PDF is the list of the texts of its pages, a Word document the list of its paragraphs.
\<close>

record file_system =
  path_exists :: "string \<Rightarrow> bool"
  path_suffix :: "string \<Rightarrow> string"
  text_content :: "string \<Rightarrow> string option"
  pdf_pages :: "string \<Rightarrow> string list option"
  docx_paragraphs :: "string \<Rightarrow> string list option"

definition is_space :: "char \<Rightarrow> bool" where
  "is_space c =
     (c \<in> set [CHR '' '', CHR 0x09, CHR 0x0A, CHR 0x0B, CHR 0x0C, CHR 0x0D,
                CHR 0x1C, CHR 0x1D, CHR 0x1E, CHR 0x1F])"

text \<open>\<open>str.strip()\<close>.\<close>

definition strip :: "string \<Rightarrow> string" where
  "strip s = rev (dropWhile is_space (rev (dropWhile is_space s)))"

text \<open>The text that the loops of the PDF and Word readers build: every part followed by a newline.\<close>

definition join_lines :: "string list \<Rightarrow> string" where
  "join_lines parts = concat (map (\<lambda>p. p @ [CHR 0x0A]) parts)"

definition read_text_file :: "file_system \<Rightarrow> string \<Rightarrow> string" where
  "read_text_file fs file_path = (case text_content fs file_path of None \<Rightarrow> [] | Some t \<Rightarrow> t)"

definition read_pdf_file :: "file_system \<Rightarrow> string \<Rightarrow> string" where
  "read_pdf_file fs file_path =
     (case pdf_pages fs file_path of None \<Rightarrow> [] | Some pages \<Rightarrow> strip (join_lines pages))"

definition read_word_file :: "file_system \<Rightarrow> string \<Rightarrow> string" where
  "read_word_file fs file_path =
     (case docx_paragraphs fs file_path of None \<Rightarrow> [] | Some ps \<Rightarrow> strip (join_lines ps))"

text \<open>\<open>FileUtils.read_file(file_path)\<close>.\<close>

definition read_file :: "file_system \<Rightarrow> string \<Rightarrow> string" where
  "read_file fs file_path =
     (if \<not> path_exists fs file_path then []
      else
        let extension = lower (path_suffix fs file_path)
        in if extension = ''.txt'' then read_text_file fs file_path
           else if extension = ''.pdf'' then read_pdf_file fs file_path
           else if extension \<in> set [''.docx'', ''.doc''] then read_word_file fs file_path
           else read_text_file fs file_path)"



section \<open>Final recommendation (report\_generator.py)\<close>






section \<open>Concrete inputs\<close>

text \<open>A response of 400 characters that contains the keywords \<open>python\<close> and \<open>api\<close>.\<close>

definition long_answer :: string where
  "long_answer = replicate 391 (CHR ''x'') @ ''python'' @ ''api''"






text \<open>
  Two question/response pairs, the second with an empty response; and the results that a
  report combines: a CV analysis whose overall score is 90 and an interview with one
  answer of 300 characters, which scores 8.
\<close>

definition skipped_input :: "question_response list" where
  "skipped_input =
     [\<lparr> qr_question = ''Why do you want this job?'', qr_response = ''I like the team.'' \<rparr>,
      \<lparr> qr_question = ''Any questions for us?'', qr_response = [] \<rparr>]"






definition junior_cv :: cv_skills where
  "junior_cv = fallback_skill_extraction ''Junior accountant''"

definition senior_job :: job_requirements where
  "senior_job = fallback_requirement_extraction ''Senior accountant''"

text \<open>A text that names both levels.\<close>

definition mentor_text :: string where
  "mentor_text = ''Senior developer, mentors junior staff''"



section \<open>Properties of the strings\<close>

lemma lower_keywords:
  "lower ''technical'' = ''technical''" "lower ''programming'' = ''programming''"
  "lower ''python'' = ''python''" "lower ''api'' = ''api''"
  by code_simp+

text \<open>Lower-casing a text keeps every occurrence of a word that is lower case already.\<close>

lemma sublist_lower: "sublist w s \<Longrightarrow> lower w = w \<Longrightarrow> sublist w (lower s)"
  unfolding lower_def using map_mono_sublist[of w s lower_char] by simp

section \<open>Per-response scoring\<close>

lemma length_band_range: "3 \<le> length_band n \<and> length_band n \<le> 8"
  by (simp add: length_band_def)

lemma keyword_matches_nonneg: "0 \<le> keyword_matches t"
  by (simp add: keyword_matches_def)

lemma keyword_matches_le: "keyword_matches t \<le> 5"
proof -
  have "length (filter (\<lambda>k. sublist k t) technical_keywords) \<le> length technical_keywords"
    by (rule length_filter_le)
  then show ?thesis by (simp add: keyword_matches_def technical_keywords_def)
qed

lemma keyword_matches_card:
  "keyword_matches t = int (card {k \<in> set technical_keywords. sublist k t})"
proof -
  have "distinct technical_keywords" by (simp add: technical_keywords_def)
  then have d: "distinct (filter (\<lambda>k. sublist k t) technical_keywords)" by simp
  have "card (set (filter (\<lambda>k. sublist k t) technical_keywords))
      = length (filter (\<lambda>k. sublist k t) technical_keywords)"
    by (rule distinct_card) (rule d)
  then show ?thesis by (simp add: keyword_matches_def)
qed

lemma keyword_matches_two:
  "sublist ''python'' t \<Longrightarrow> sublist ''api'' t \<Longrightarrow> 2 \<le> keyword_matches t"
  by (simp add: keyword_matches_def technical_keywords_def)

lemma fallback_score:
  "overall_score (fallback_scoring q r c) =
     (if sublist ''technical'' (lower q) \<or> sublist ''programming'' (lower q)
      then min 10 (length_band (length r) + keyword_matches (lower r))
      else length_band (length r))"
  by (simp add: fallback_scoring_def Let_def)

lemma fallback_recommendation:
  "recommendation (fallback_scoring q r c) =
     (if 6 \<le> overall_score (fallback_scoring q r c) then ''consider'' else ''reject'')"
  by (simp add: fallback_scoring_def Let_def)

text \<open>
  C7. Per-response scoring: the base score is 3 for a response of fewer than 50 characters,
  5 for fewer than 150, 7 for fewer than 300 and 8 otherwise. When the lower-cased question
  contains "technical" or "programming", one point is added for every keyword among
  python, java, database, api and algorithm that the lower-cased response contains, and the
  sum is capped at 10; otherwise the score is the base score. The recommendation is
  consider when the score is at least 6 and reject otherwise. Hence a response of 400
  characters containing "python" and "api" to a question containing "technical" scores 10
  with the recommendation consider.
\<close>

theorem per_response_scoring:
  "(sublist ''technical'' (lower q) \<or> sublist ''programming'' (lower q) \<longrightarrow>
      overall_score (fallback_scoring q r c) =
        min 10 ((if length r < 50 then 3 else if length r < 150 then 5 else if length r < 300 then 7 else 8)
                + int (card {k \<in> {''python'', ''java'', ''database'', ''api'', ''algorithm''}. sublist k (lower r)})))
   \<and> (\<not> (sublist ''technical'' (lower q) \<or> sublist ''programming'' (lower q)) \<longrightarrow>
      overall_score (fallback_scoring q r c) =
        (if length r < 50 then 3 else if length r < 150 then 5 else if length r < 300 then 7 else 8))
   \<and> recommendation (fallback_scoring q r c) =
        (if 6 \<le> overall_score (fallback_scoring q r c) then ''consider'' else ''reject'')
   \<and> (sublist ''technical'' q \<and> length r = 400 \<and> sublist ''python'' r \<and> sublist ''api'' r \<longrightarrow>
        overall_score (fallback_scoring q r c) = 10 \<and> recommendation (fallback_scoring q r c) = ''consider'')"
proof (intro conjI impI)
  assume "sublist ''technical'' (lower q) \<or> sublist ''programming'' (lower q)"
  then show "overall_score (fallback_scoring q r c) =
        min 10 ((if length r < 50 then 3 else if length r < 150 then 5 else if length r < 300 then 7 else 8)
                + int (card {k \<in> {''python'', ''java'', ''database'', ''api'', ''algorithm''}. sublist k (lower r)}))"
    by (simp add: fallback_score keyword_matches_card length_band_def technical_keywords_def)
next
  assume "\<not> (sublist ''technical'' (lower q) \<or> sublist ''programming'' (lower q))"
  then show "overall_score (fallback_scoring q r c) =
        (if length r < 50 then 3 else if length r < 150 then 5 else if length r < 300 then 7 else 8)"
    by (simp add: fallback_score length_band_def)
next
  show "recommendation (fallback_scoring q r c) =
        (if 6 \<le> overall_score (fallback_scoring q r c) then ''consider'' else ''reject'')"
    by (rule fallback_recommendation)
next
  assume h: "sublist ''technical'' q \<and> length r = 400 \<and> sublist ''python'' r \<and> sublist ''api'' r"
  then have q: "sublist ''technical'' (lower q)"
    by (simp add: sublist_lower lower_keywords)
  from h have "2 \<le> keyword_matches (lower r)"
    by (intro keyword_matches_two sublist_lower) (simp_all add: lower_keywords)
  with h q show s: "overall_score (fallback_scoring q r c) = 10"
    by (simp add: fallback_score length_band_def)
  then show "recommendation (fallback_scoring q r c) = ''consider''"
    by (simp add: fallback_recommendation)
qed

theorem per_response_scoring_witness:
  "overall_score (fallback_scoring ''A technical question'' long_answer []) = 10
   \<and> recommendation (fallback_scoring ''A technical question'' long_answer []) = ''consider''
   \<and> overall_score (fallback_scoring ''Why this role?'' long_answer []) = 8
   \<and> overall_score (fallback_scoring ''Your programming languages?'' ''I use Java.'' []) = 4
   \<and> recommendation (fallback_scoring ''Your programming languages?'' ''I use Java.'' []) = ''reject''"
proof -
  have q: "sublist ''technical'' ''A technical question''" by code_simp
  have l: "length long_answer = 400" by (simp add: long_answer_def)
  have p: "sublist ''python'' long_answer"
    unfolding long_answer_def by (rule sublist_appendI)
  have a: "sublist ''api'' long_answer"
    unfolding long_answer_def by (simp only: append_assoc[symmetric] sublist_append_leftI)
  from q l p a per_response_scoring[of "''A technical question''" long_answer "[]"]
  have 1: "overall_score (fallback_scoring ''A technical question'' long_answer []) = 10
      \<and> recommendation (fallback_scoring ''A technical question'' long_answer []) = ''consider''"
    by blast
  have n: "\<not> (sublist ''technical'' (lower ''Why this role?'') \<or> sublist ''programming'' (lower ''Why this role?''))"
    by code_simp
  from n per_response_scoring[of "''Why this role?''" long_answer "[]"]
  have "overall_score (fallback_scoring ''Why this role?'' long_answer []) =
      (if length long_answer < 50 then 3 else if length long_answer < 150 then 5
       else if length long_answer < 300 then 7 else 8)"
    by blast
  then have 2: "overall_score (fallback_scoring ''Why this role?'' long_answer []) = 8"
    by (simp add: l)
  have t: "sublist ''technical'' (lower ''Your programming languages?'')
      \<or> sublist ''programming'' (lower ''Your programming languages?'')"
    by code_simp
  have k: "card {k \<in> {''python'', ''java'', ''database'', ''api'', ''algorithm''}. sublist k (lower ''I use Java.'')} = 1"
    by code_simp
  from t per_response_scoring[of "''Your programming languages?''" "''I use Java.''" "[]"]
  have "overall_score (fallback_scoring ''Your programming languages?'' ''I use Java.'' []) =
      min 10 ((if length ''I use Java.'' < 50 then 3 else if length ''I use Java.'' < 150 then 5
               else if length ''I use Java.'' < 300 then 7 else 8)
        + int (card {k \<in> {''python'', ''java'', ''database'', ''api'', ''algorithm''}. sublist k (lower ''I use Java.'')}))"
    by blast
  then have 3: "overall_score (fallback_scoring ''Your programming languages?'' ''I use Java.'' []) = 4"
    by (simp only: k) simp
  from per_response_scoring[of "''Your programming languages?''" "''I use Java.''" "[]"]
  have "recommendation (fallback_scoring ''Your programming languages?'' ''I use Java.'' []) =
      (if 6 \<le> overall_score (fallback_scoring ''Your programming languages?'' ''I use Java.'' [])
       then ''consider'' else ''reject'')"
    by blast
  then have 4: "recommendation (fallback_scoring ''Your programming languages?'' ''I use Java.'' []) = ''reject''"
    by (simp only: 3) simp
  from 1 2 3 4 show ?thesis by blast
qed

text \<open>
  C10. For every question and every response, the empty response included, the score of a
  response is an integer from 3 to 10: the scores 1 and 2 of the declared range are never
  given, since the smallest length band is 3 and the keyword bonus only adds points.
\<close>

theorem score_range:
  "3 \<le> overall_score (fallback_scoring q r c) \<and> overall_score (fallback_scoring q r c) \<le> 10
   \<and> 3 \<le> overall_score (score_interview_response q r criteria)
   \<and> overall_score (score_interview_response q r criteria) \<le> 10
   \<and> overall_score (fallback_scoring q [] c) = 3"
proof -
  have b: "3 \<le> overall_score (fallback_scoring q r c') \<and> overall_score (fallback_scoring q r c') \<le> 10"
    for c'
    using length_band_range[of "length r"] keyword_matches_nonneg[of "lower r"]
    by (simp add: fallback_score)
  have "keyword_matches [] = 0"
    by (simp add: keyword_matches_def technical_keywords_def)
  then have e: "overall_score (fallback_scoring q [] c) = 3"
    by (simp add: fallback_score length_band_def lower_def)
  from b e show ?thesis
    by (simp add: score_interview_response_def Let_def)
qed

section \<open>Rounding to two decimals\<close>







section \<open>Consistency of interview scores\<close>







section \<open>Aggregation of interview responses\<close>

text \<open>The scores and the total that the loop adds for the pairs it does not skip.\<close>

lemma score_loop_total:
  "snd (score_loop i qrs (individual, tot)) =
     tot + sum_list (map (\<lambda>qr. overall_score (score_interview_response (qr_question qr) (qr_response qr) None))
                        (filter (\<lambda>qr. qr_question qr \<noteq> [] \<and> qr_response qr \<noteq> []) qrs))"
  by (induction qrs arbitrary: i individual tot) (auto simp: Let_def)

lemma score_loop_individual:
  "map snd (fst (score_loop i qrs (individual, tot))) =
     map snd individual
     @ map (\<lambda>qr. score_interview_response (qr_question qr) (qr_response qr) None)
         (filter (\<lambda>qr. qr_question qr \<noteq> [] \<and> qr_response qr \<noteq> []) qrs)"
  by (induction qrs arbitrary: i individual tot) (auto simp: Let_def)

lemma aggregate_overall_score:
  "ia_overall_score (overall_assessment (score_multiple_responses qrs)) =
     (if qrs = [] then 0
      else round2 (of_int (sum_list (map (\<lambda>qr. overall_score (score_interview_response (qr_question qr) (qr_response qr) None))
                        (filter (\<lambda>qr. qr_question qr \<noteq> [] \<and> qr_response qr \<noteq> []) qrs)))
                   / of_nat (length qrs)))"
proof -
  obtain ind tot where l: "score_loop 0 qrs ([], 0) = (ind, tot)"
    by (cases "score_loop 0 qrs ([], 0)")
  have "tot = snd (score_loop 0 qrs ([], 0))" by (simp add: l)
  then have t: "tot = sum_list (map (\<lambda>qr. overall_score (score_interview_response (qr_question qr) (qr_response qr) None))
                        (filter (\<lambda>qr. qr_question qr \<noteq> [] \<and> qr_response qr \<noteq> []) qrs))"
    by (simp add: score_loop_total)
  show ?thesis
    by (simp add: score_multiple_responses_def l calculate_overall_assessment_def Let_def t)
qed

text \<open>
  C2. The overall score of several responses is not the mean over the pairs that were
  scored: the sum of their scores is divided by the number of all pairs of the input, the
  skipped ones included. With one scored pair (score 3) and one skipped pair the overall
  score is 1.5, not 3.
\<close>

theorem skipped_pair_counts_in_mean:
  "map (\<lambda>(i, r). (i, overall_score r)) (individual_scores (score_multiple_responses skipped_input)) = [(0, 3)]
   \<and> round2 (of_int (sum_list (map (\<lambda>(i, r). overall_score r)
                 (individual_scores (score_multiple_responses skipped_input))))
             / of_nat (length (individual_scores (score_multiple_responses skipped_input)))) = 3
   \<and> ia_overall_score (overall_assessment (score_multiple_responses skipped_input)) = 3 / 2
   \<and> total_questions (overall_assessment (score_multiple_responses skipped_input)) = Some 2"
  by code_simp

section \<open>Final recommendation\<close>




section \<open>Gap calculator\<close>


lemma gaps_raised:
  "all_skills (technical_skills cv) = None \<or> all_skills (required_technical_skills job) = None
   \<Longrightarrow> calculate_skill_gaps cv job = initial_gaps"
  by (auto simp: calculate_skill_gaps_def split: option.splits)



lemma gaps_score:
  assumes "all_skills (technical_skills cv) = Some cs" "all_skills (required_technical_skills job) = Some js"
  shows "gap_score (calculate_skill_gaps cv job) =
     experience_adjusted_score (card js) (card (js - cs)) (experience_gap (calculate_skill_gaps cv job))"
  using assms by (simp add: calculate_skill_gaps_def Let_def)


lemma adjusted_score_range:
  "0 \<le> experience_adjusted_score t m g \<and> experience_adjusted_score t m g \<le> 100"
  by (simp add: experience_adjusted_score_def Let_def)


text \<open>
  C3. For every pair of profiles the gap score lies in [0, 100], with the adjustments of
  +30 and -20 applied before the clamp; and when the set of required skills is empty the
  gap score is exactly 0.
\<close>

theorem gap_score_bounds:
  "0 \<le> gap_score (calculate_skill_gaps cv job)
   \<and> gap_score (calculate_skill_gaps cv job) \<le> 100
   \<and> (all_skills (required_technical_skills job) = Some {} \<longrightarrow>
        gap_score (calculate_skill_gaps cv job) = 0)"
proof (cases "all_skills (technical_skills cv) = None \<or> all_skills (required_technical_skills job) = None")
  case True
  then have "calculate_skill_gaps cv job = initial_gaps" by (rule gaps_raised)
  then show ?thesis by (simp add: initial_gaps_def)
next
  case False
  then obtain cs js where a: "all_skills (technical_skills cv) = Some cs"
    "all_skills (required_technical_skills job) = Some js" by auto
  show ?thesis
    using adjusted_score_range[of "card js" "card (js - cs)" "experience_gap (calculate_skill_gaps cv job)"]
    by (auto simp: gaps_score[OF a] a experience_adjusted_score_def)
qed

theorem gap_score_bounds_witness:
  "0 \<le> gap_score (calculate_skill_gaps junior_cv senior_job)
   \<and> gap_score (calculate_skill_gaps junior_cv senior_job) \<le> 100
   \<and> all_skills (required_technical_skills senior_job) = Some {}
   \<and> gap_score (calculate_skill_gaps junior_cv senior_job) = 0"
proof -
  have e: "all_skills (required_technical_skills senior_job) = Some {}"
    by code_simp
  from e gap_score_bounds[of junior_cv senior_job] show ?thesis by blast
qed










section \<open>Senior candidates for junior jobs\<close>











section \<open>Experience level of a text\<close>

lemma cv_level:
  "experience_level (fallback_skill_extraction t) = Some (fst (cv_experience (lower t)))"
  "years_experience (fallback_skill_extraction t) = Some (snd (cv_experience (lower t)))"
  by (simp_all add: fallback_skill_extraction_def Let_def)

lemma job_level:
  "required_experience_level (fallback_requirement_extraction t) = Some (fst (job_experience (lower t)))"
  "required_years_experience (fallback_requirement_extraction t) = Some (snd (job_experience (lower t)))"
  by (simp_all add: fallback_requirement_extraction_def Let_def)

text \<open>
  C6, as amended. Both extractors test the lower-cased text against their keyword rules
  in a fixed order, the first matching rule wins and the level is unknown when none
  matches. The CV skill extractor tests junior (junior, entry, graduate, intern), then
  senior (senior, lead, architect, principal), then mid-level (mid, intermediate, 3, 4, 5).
  The job requirement extractor tests senior first (senior, lead, architect, principal,
  5+ to 10+), then junior (junior, entry, graduate, intern, 1-3, 0-2), then mid-level
  (mid, intermediate, 3-5, 4-6).
\<close>

theorem experience_level_rules:
  "(any_in [''junior'', ''entry'', ''graduate'', ''intern''] (lower t) \<longrightarrow>
      experience_level (fallback_skill_extraction t) = Some ''junior'')
   \<and> (\<not> any_in [''junior'', ''entry'', ''graduate'', ''intern''] (lower t)
        \<and> any_in [''senior'', ''lead'', ''architect'', ''principal''] (lower t) \<longrightarrow>
      experience_level (fallback_skill_extraction t) = Some ''senior'')
   \<and> (\<not> any_in [''junior'', ''entry'', ''graduate'', ''intern''] (lower t)
        \<and> \<not> any_in [''senior'', ''lead'', ''architect'', ''principal''] (lower t)
        \<and> any_in [''mid'', ''intermediate'', ''3'', ''4'', ''5''] (lower t) \<longrightarrow>
      experience_level (fallback_skill_extraction t) = Some ''mid-level'')
   \<and> (\<not> any_in [''junior'', ''entry'', ''graduate'', ''intern''] (lower t)
        \<and> \<not> any_in [''senior'', ''lead'', ''architect'', ''principal''] (lower t)
        \<and> \<not> any_in [''mid'', ''intermediate'', ''3'', ''4'', ''5''] (lower t) \<longrightarrow>
      experience_level (fallback_skill_extraction t) = Some ''unknown'')
   \<and> (any_in [''senior'', ''lead'', ''architect'', ''principal'',
               ''5+'', ''6+'', ''7+'', ''8+'', ''9+'', ''10+''] (lower t) \<longrightarrow>
      required_experience_level (fallback_requirement_extraction t) = Some ''senior'')
   \<and> (\<not> any_in [''senior'', ''lead'', ''architect'', ''principal'',
                 ''5+'', ''6+'', ''7+'', ''8+'', ''9+'', ''10+''] (lower t)
        \<and> any_in [''junior'', ''entry'', ''graduate'', ''intern'', ''1-3'', ''0-2''] (lower t) \<longrightarrow>
      required_experience_level (fallback_requirement_extraction t) = Some ''junior'')
   \<and> (\<not> any_in [''senior'', ''lead'', ''architect'', ''principal'',
                 ''5+'', ''6+'', ''7+'', ''8+'', ''9+'', ''10+''] (lower t)
        \<and> \<not> any_in [''junior'', ''entry'', ''graduate'', ''intern'', ''1-3'', ''0-2''] (lower t)
        \<and> any_in [''mid'', ''intermediate'', ''3-5'', ''4-6''] (lower t) \<longrightarrow>
      required_experience_level (fallback_requirement_extraction t) = Some ''mid-level'')
   \<and> (\<not> any_in [''senior'', ''lead'', ''architect'', ''principal'',
                 ''5+'', ''6+'', ''7+'', ''8+'', ''9+'', ''10+''] (lower t)
        \<and> \<not> any_in [''junior'', ''entry'', ''graduate'', ''intern'', ''1-3'', ''0-2''] (lower t)
        \<and> \<not> any_in [''mid'', ''intermediate'', ''3-5'', ''4-6''] (lower t) \<longrightarrow>
      required_experience_level (fallback_requirement_extraction t) = Some ''unknown'')"
  unfolding cv_level job_level cv_experience_def job_experience_def
    cv_junior_words_def cv_senior_words_def cv_mid_words_def
    job_senior_words_def job_junior_words_def job_mid_words_def
  by simp

lemma mentor_text_words:
  "any_in [''junior'', ''entry'', ''graduate'', ''intern''] (lower mentor_text)"
  "any_in [''senior'', ''lead'', ''architect'', ''principal'',
           ''5+'', ''6+'', ''7+'', ''8+'', ''9+'', ''10+''] (lower mentor_text)"
  by code_simp+

lemma other_texts_words:
  "\<not> any_in [''junior'', ''entry'', ''graduate'', ''intern''] (lower ''Lead architect'')"
  "any_in [''senior'', ''lead'', ''architect'', ''principal''] (lower ''Lead architect'')"
  "\<not> any_in [''junior'', ''entry'', ''graduate'', ''intern''] (lower ''Developer, 4 years'')"
  "\<not> any_in [''senior'', ''lead'', ''architect'', ''principal''] (lower ''Developer, 4 years'')"
  "any_in [''mid'', ''intermediate'', ''3'', ''4'', ''5''] (lower ''Developer, 4 years'')"
  "\<not> any_in [''senior'', ''lead'', ''architect'', ''principal'',
             ''5+'', ''6+'', ''7+'', ''8+'', ''9+'', ''10+''] (lower ''Developer, 4 years'')"
  "\<not> any_in [''junior'', ''entry'', ''graduate'', ''intern'', ''1-3'', ''0-2''] (lower ''Developer, 4 years'')"
  "\<not> any_in [''mid'', ''intermediate'', ''3-5'', ''4-6''] (lower ''Developer, 4 years'')"
  by code_simp+

theorem experience_level_rules_witness:
  "experience_level (fallback_skill_extraction mentor_text) = Some ''junior''
   \<and> required_experience_level (fallback_requirement_extraction mentor_text) = Some ''senior''
   \<and> experience_level (fallback_skill_extraction ''Lead architect'') = Some ''senior''
   \<and> experience_level (fallback_skill_extraction ''Developer, 4 years'') = Some ''mid-level''
   \<and> required_experience_level (fallback_requirement_extraction ''Developer, 4 years'') = Some ''unknown''"
proof -
  have 1: "experience_level (fallback_skill_extraction mentor_text) = Some ''junior''"
    using experience_level_rules[of mentor_text] mentor_text_words(1) by blast
  have 2: "required_experience_level (fallback_requirement_extraction mentor_text) = Some ''senior''"
    using experience_level_rules[of mentor_text] mentor_text_words(2) by blast
  have 3: "experience_level (fallback_skill_extraction ''Lead architect'') = Some ''senior''"
    using experience_level_rules[of "''Lead architect''"] other_texts_words(1,2) by blast
  have 4: "experience_level (fallback_skill_extraction ''Developer, 4 years'') = Some ''mid-level''"
    using experience_level_rules[of "''Developer, 4 years''"] other_texts_words(3,4,5) by blast
  have 5: "required_experience_level (fallback_requirement_extraction ''Developer, 4 years'') = Some ''unknown''"
    using experience_level_rules[of "''Developer, 4 years''"] other_texts_words(6,7,8) by blast
  from 1 2 3 4 5 show ?thesis by (intro conjI)
qed

text \<open>
  The job requirement extractor does not test junior first: a job text that names both
  levels matches the junior rule and is classified senior.
\<close>

theorem job_level_order_counterexample:
  "any_in [''junior'', ''entry'', ''graduate'', ''intern''] (lower mentor_text)
   \<and> required_experience_level (fallback_requirement_extraction mentor_text) = Some ''senior''
   \<and> required_experience_level (fallback_requirement_extraction mentor_text) \<noteq> Some ''junior''"
proof -
  have a: "any_in [''junior'', ''entry'', ''graduate'', ''intern''] (lower mentor_text)"
    by code_simp
  have b: "required_experience_level (fallback_requirement_extraction mentor_text) = Some ''senior''"
    by code_simp
  show ?thesis unfolding b using a by simp
qed

section \<open>Reading the input files\<close>

lemma read_file_missing: "\<not> path_exists fs p \<Longrightarrow> read_file fs p = []"
  by (simp add: read_file_def)

lemma read_file_raised:
  "text_content fs p = None \<Longrightarrow> pdf_pages fs p = None \<Longrightarrow> docx_paragraphs fs p = None \<Longrightarrow>
     read_file fs p = []"
  by (simp add: read_file_def read_text_file_def read_pdf_file_def read_word_file_def Let_def)




end
